theory Spec2Isabelle
  imports Complex_Main
begin

section \<open>The API service of the boilerplate (src/services/api.js)\<close>

text \<open>
  The module creates one axios instance, \<open>apiClient\<close>, and exports four asynchronous
  functions: \<open>fetchPosts\<close>, \<open>fetchPostById\<close>, \<open>fetchUser\<close> and \<open>createPost\<close>. Each
  awaits one call of the instance inside a \<open>try\<close> block, returns \<open>response.data\<close> when
  the call is fulfilled, and writes to the console and throws the caught value again
  when it is rejected.

  The embedding makes the effects explicit. The axios library and the network are not
  code of this module: they are the parameter \<open>tr\<close>, which settles a request either with
  a response or with a rejection value; with the timeout the instance is given, it is
  taken to settle every request. What the module does to the outside world is
  recorded in a state: the calls of the console, the requests handed to the instance,
  and the configuration of the instance.
\<close>

subsection \<open>JavaScript values\<close>

text \<open>
  The values a caller obtains from \<open>JSON.parse\<close>, and \<open>undefined\<close>: an object is a list
  of its own properties, all of them data. The module never computes with numbers, so
  their type is the parameter \<open>'n\<close>. An argument that the caller leaves out is the value
  \<open>JUndefined\<close>, as in JavaScript. Functions, symbols and instances of classes are
  outside the model.
\<close>

datatype 'n jsval =
    JUndefined
  | JNull
  | JBool bool
  | JNum 'n
  | JStr string
  | JArr "'n jsval list"
  | JObj "(string \<times> 'n jsval) list"

fun join_comma :: "string list \<Rightarrow> string" where
  "join_comma [] = []"
| "join_comma [x] = x"
| "join_comma (x # y # ys) = x @ '','' @ join_comma (y # ys)"

text \<open>
  The conversion a template literal \<^verbatim>\<open>`...${id}`\<close> applies to the value of \<open>id\<close>;
  \<open>None\<close> is the \<open>TypeError\<close> it throws. The conversion of a number is the runtime's and
  is the parameter \<open>ns\<close>. An object is converted by its \<open>toString\<close>: the inherited one
  gives \<open>[object Object]\<close>; an own property of that name hides it and, being data, cannot
  be called, and \<open>valueOf\<close> gives no primitive either, so the conversion throws. An array
  is converted by \<open>join\<close>, which converts each element other than \<open>undefined\<close> and
  \<open>null\<close>.
\<close>

fun ToString :: "('n \<Rightarrow> string) \<Rightarrow> 'n jsval \<Rightarrow> string option" where
  "ToString ns JUndefined = Some ''undefined''"
| "ToString ns JNull = Some ''null''"
| "ToString ns (JBool b) = Some (if b then ''true'' else ''false'')"
| "ToString ns (JNum n) = Some (ns n)"
| "ToString ns (JStr s) = Some s"
| "ToString ns (JArr xs) =
     map_option join_comma
       (those (map (\<lambda>x. if x = JUndefined \<or> x = JNull then Some [] else ToString ns x) xs))"
| "ToString ns (JObj kvs) =
     (if ''toString'' \<in> set (map fst kvs) then None else Some ''[object Object]'')"

text \<open>
  Decimal notation of an integer. It is the runtime's conversion of a number on the safe
  integers (\<open>Number.isSafeInteger\<close>: at most \<open>2^53 - 1\<close> in absolute value), which are
  the integers a JavaScript number holds exactly; beyond them the runtime prints the
  shortest digits that read back as the same number, and the two differ.
\<close>

fun decimal_nat :: "nat \<Rightarrow> string" where
  "decimal_nat n =
     (if n < 10 then [''0123456789'' ! n]
      else decimal_nat (n div 10) @ [''0123456789'' ! (n mod 10)])"

definition decimal :: "int \<Rightarrow> string" where
  "decimal i = (if i < 0 then ''-'' @ decimal_nat (nat (- i)) else decimal_nat (nat i))"

definition safe_integer :: "int \<Rightarrow> bool" where
  "safe_integer i = (\<bar>i\<bar> \<le> 2 ^ 53 - 1)"

subsection \<open>Requests, responses and rejections\<close>

datatype http_method = GET | POST

text \<open>
  What the module hands to \<open>apiClient.get(url, {params})\<close> and
  \<open>apiClient.post(url, data)\<close>.
\<close>

record 'n http_request =
  verb :: http_method
  url :: string
  params :: "(string \<times> 'n jsval) list"
  body :: "'n jsval option"

record 'n http_response =
  status :: nat
  data :: "'n jsval"

text \<open>
  A value that is thrown and caught. The module reads three of its properties:
  \<open>error.response\<close>, \<open>error.request\<close> and \<open>error.message\<close>. The first two are objects
  when present (truthy) and \<open>None\<close> when absent (\<open>undefined\<close>, falsy).
\<close>

record 'n axios_error =
  response :: "'n http_response option"
  request :: "'n http_request option"
  message :: string

text \<open>
  The \<open>TypeError\<close> of a template literal whose value has no conversion to a string. It
  has a message (here as V8 words it) and neither a response nor a request.
\<close>

definition type_error :: "'n axios_error" where
  "type_error =
     \<lparr>response = None, request = None, message = ''Cannot convert object to primitive value''\<rparr>"

record config =
  baseURL :: string
  headers :: "(string \<times> string) list"
  timeout :: nat

text \<open>\<open>const apiClient = axios.create({...})\<close>; the timeout is in milliseconds.\<close>

definition apiClient :: config where
  "apiClient =
     \<lparr>baseURL = ''https://jsonplaceholder.typicode.com'',
      headers = [(''Content-Type'', ''application/json''), (''Accept'', ''application/json'')],
      timeout = 10000\<rparr>"

subsection \<open>The console and the state\<close>

text \<open>An argument of a console call, and the two console functions the module calls.\<close>

datatype 'n logarg =
    AStr string
  | ANum nat
  | AVal "'n jsval"
  | AReq "'n http_request"
  | AErr "'n axios_error"

datatype 'n console_call =
    ConsoleError "'n logarg list"
  | ConsoleLog "'n logarg list"

record 'n world =
  client :: config
  console :: "'n console_call list"
  wire :: "'n http_request list"

definition init_world :: "'n world" where
  "init_world = \<lparr>client = apiClient, console = [], wire = []\<rparr>"

text \<open>
  The transport: axios and the remote service. It reads the configuration of the
  instance and settles the request with a rejection (\<open>Inl\<close>) or a response (\<open>Inr\<close>).
\<close>

type_synonym 'n transport = "config \<Rightarrow> 'n http_request \<Rightarrow> 'n axios_error + 'n http_response"

definition console_error :: "'n logarg list \<Rightarrow> 'n world \<Rightarrow> 'n world" where
  "console_error args s = s\<lparr>console := console s @ [ConsoleError args]\<rparr>"

definition console_log :: "'n logarg list \<Rightarrow> 'n world \<Rightarrow> 'n world" where
  "console_log args s = s\<lparr>console := console s @ [ConsoleLog args]\<rparr>"

definition dispatch ::
  "'n transport \<Rightarrow> 'n http_request \<Rightarrow> 'n world \<Rightarrow> ('n axios_error + 'n http_response) \<times> 'n world" where
  "dispatch tr req s = (tr (client s) req, s\<lparr>wire := wire s @ [req]\<rparr>)"

text \<open>\<open>apiClient.get(url, {params})\<close>; without a second argument there are no parameters.\<close>

definition client_get ::
  "'n transport \<Rightarrow> string \<Rightarrow> (string \<times> 'n jsval) list \<Rightarrow> 'n world
     \<Rightarrow> ('n axios_error + 'n http_response) \<times> 'n world" where
  "client_get tr u ps s = dispatch tr \<lparr>verb = GET, url = u, params = ps, body = None\<rparr> s"

text \<open>\<open>apiClient.post(url, data)\<close>.\<close>

definition client_post ::
  "'n transport \<Rightarrow> string \<Rightarrow> 'n jsval \<Rightarrow> 'n world
     \<Rightarrow> ('n axios_error + 'n http_response) \<times> 'n world" where
  "client_post tr u d s = dispatch tr \<lparr>verb = POST, url = u, params = [], body = Some d\<rparr> s"

subsection \<open>The four exported functions\<close>

text \<open>
  \<open>fetchPosts = async (limit = 10) => ...\<close>. The default of the parameter is taken when
  the argument is \<open>undefined\<close>. The \<open>catch\<close> block tests \<open>error.response\<close>, then
  \<open>error.request\<close>, writes one line to \<open>console.error\<close> and throws \<open>error\<close> again.
\<close>

definition fetchPosts ::
  "('n::numeral) transport \<Rightarrow> 'n jsval \<Rightarrow> 'n world \<Rightarrow> ('n axios_error + 'n jsval) \<times> 'n world" where
  "fetchPosts tr limit0 s =
     (let limit = (if limit0 = JUndefined then JNum 10 else limit0) in
      case client_get tr ''/posts'' [(''_limit'', limit)] s of
        (Inr resp, s1) \<Rightarrow> (Inr (data resp), s1)
      | (Inl error, s1) \<Rightarrow>
          (Inl error,
           (case response error of
              Some r \<Rightarrow> console_error [AStr ''Server Error:'', ANum (status r), AVal (data r)] s1
            | None \<Rightarrow>
                (case request error of
                   Some q \<Rightarrow> console_error [AStr ''Network Error:'', AReq q] s1
                 | None \<Rightarrow> console_error [AStr ''Error:'', AStr (message error)] s1))))"

text \<open>
  \<open>fetchPostById\<close> evaluates a template literal with the id twice: for the path, inside
  the \<open>try\<close> block and before the instance is called, and for the message, inside the
  \<open>catch\<close> block and before \<open>console.error\<close> is called. When the id has no conversion, the
  first throws into the \<open>catch\<close> block and the second throws out of the function.
\<close>

definition fetchPostById ::
  "('n \<Rightarrow> string) \<Rightarrow> 'n transport \<Rightarrow> 'n jsval \<Rightarrow> 'n world
     \<Rightarrow> ('n axios_error + 'n jsval) \<times> 'n world" where
  "fetchPostById ns tr ident s =
     (case (case ToString ns ident of
              None \<Rightarrow> (Inl type_error, s)
            | Some p \<Rightarrow> client_get tr (''/posts/'' @ p) [] s) of
        (Inr resp, s1) \<Rightarrow> (Inr (data resp), s1)
      | (Inl error, s1) \<Rightarrow>
          (case ToString ns ident of
             None \<Rightarrow> (Inl type_error, s1)
           | Some p \<Rightarrow>
               (Inl error,
                console_error [AStr (''Error fetching post with ID '' @ p @ '':''), AErr error] s1)))"

text \<open>
  \<open>fetchUser\<close> is the same with a \<open>finally\<close> block: its \<open>console.log\<close> runs after the \<open>try\<close>
  block has returned and after the \<open>catch\<close> block has thrown.
\<close>

definition fetchUser ::
  "('n \<Rightarrow> string) \<Rightarrow> 'n transport \<Rightarrow> 'n jsval \<Rightarrow> 'n world
     \<Rightarrow> ('n axios_error + 'n jsval) \<times> 'n world" where
  "fetchUser ns tr ident s =
     (let (r, s2) =
        (case (case ToString ns ident of
                 None \<Rightarrow> (Inl type_error, s)
               | Some p \<Rightarrow> client_get tr (''/users/'' @ p) [] s) of
           (Inr resp, s1) \<Rightarrow> (Inr (data resp), s1)
         | (Inl error, s1) \<Rightarrow>
             (case ToString ns ident of
                None \<Rightarrow> (Inl type_error, s1)
              | Some p \<Rightarrow>
                  (Inl error,
                   console_error [AStr (''Error fetching user with ID '' @ p @ '':''), AErr error] s1)))
      in (r, console_log [AStr ''User fetch operation completed''] s2))"

definition createPost ::
  "'n transport \<Rightarrow> 'n jsval \<Rightarrow> 'n world \<Rightarrow> ('n axios_error + 'n jsval) \<times> 'n world" where
  "createPost tr postData s =
     (case client_post tr ''/posts'' postData s of
        (Inr resp, s1) \<Rightarrow> (Inr (data resp), s1)
      | (Inl error, s1) \<Rightarrow>
          (Inl error, console_error [AStr ''Error creating post:'', AErr error] s1))"

subsection \<open>A call in two halves\<close>

text \<open>
  An \<open>async\<close> function runs up to its \<open>await\<close> when it is called, and from there on when
  the awaited promise has settled; in between, other code runs. Each of the four functions
  has one \<open>await\<close>, on the call of the instance. \<open>begin_call\<close> is the part before it: the
  request is handed to the instance, and the call waits for the settlement; or, when the
  template literal throws, the \<open>catch\<close> block (and the \<open>finally\<close> block) run at once and
  the call is over. \<open>resume_call\<close> is the part after it.
\<close>

datatype 'n call =
    FetchPosts "'n jsval"
  | FetchPostById "'n jsval"
  | FetchUser "'n jsval"
  | CreatePost "'n jsval"

datatype 'n progress =
    Awaiting "'n axios_error + 'n http_response"
  | Returned "'n axios_error + 'n jsval"

fun begin_call ::
  "('n \<Rightarrow> string) \<Rightarrow> ('n::numeral) transport \<Rightarrow> 'n call \<Rightarrow> 'n world \<Rightarrow> 'n progress \<times> 'n world" where
  "begin_call ns tr (FetchPosts limit0) s =
     (let limit = (if limit0 = JUndefined then JNum 10 else limit0) in
      case client_get tr ''/posts'' [(''_limit'', limit)] s of (x, s1) \<Rightarrow> (Awaiting x, s1))"
| "begin_call ns tr (FetchPostById ident) s =
     (case ToString ns ident of
        None \<Rightarrow> (Returned (Inl type_error), s)
      | Some p \<Rightarrow> (case client_get tr (''/posts/'' @ p) [] s of (x, s1) \<Rightarrow> (Awaiting x, s1)))"
| "begin_call ns tr (FetchUser ident) s =
     (case ToString ns ident of
        None \<Rightarrow> (Returned (Inl type_error), console_log [AStr ''User fetch operation completed''] s)
      | Some p \<Rightarrow> (case client_get tr (''/users/'' @ p) [] s of (x, s1) \<Rightarrow> (Awaiting x, s1)))"
| "begin_call ns tr (CreatePost postData) s =
     (case client_post tr ''/posts'' postData s of (x, s1) \<Rightarrow> (Awaiting x, s1))"

fun resume_call ::
  "('n \<Rightarrow> string) \<Rightarrow> 'n call \<Rightarrow> 'n axios_error + 'n http_response \<Rightarrow> 'n world
     \<Rightarrow> ('n axios_error + 'n jsval) \<times> 'n world" where
  "resume_call ns (FetchPosts limit0) x s =
     (case x of
        Inr resp \<Rightarrow> (Inr (data resp), s)
      | Inl error \<Rightarrow>
          (Inl error,
           (case response error of
              Some r \<Rightarrow> console_error [AStr ''Server Error:'', ANum (status r), AVal (data r)] s
            | None \<Rightarrow>
                (case request error of
                   Some q \<Rightarrow> console_error [AStr ''Network Error:'', AReq q] s
                 | None \<Rightarrow> console_error [AStr ''Error:'', AStr (message error)] s))))"
| "resume_call ns (FetchPostById ident) x s =
     (case x of
        Inr resp \<Rightarrow> (Inr (data resp), s)
      | Inl error \<Rightarrow>
          (case ToString ns ident of
             None \<Rightarrow> (Inl type_error, s)
           | Some p \<Rightarrow>
               (Inl error,
                console_error [AStr (''Error fetching post with ID '' @ p @ '':''), AErr error] s)))"
| "resume_call ns (FetchUser ident) x s =
     (case (case x of
              Inr resp \<Rightarrow> (Inr (data resp), s)
            | Inl error \<Rightarrow>
                (case ToString ns ident of
                   None \<Rightarrow> (Inl type_error, s)
                 | Some p \<Rightarrow>
                     (Inl error,
                      console_error [AStr (''Error fetching user with ID '' @ p @ '':''), AErr error] s))) of
        (r, s2) \<Rightarrow> (r, console_log [AStr ''User fetch operation completed''] s2))"
| "resume_call ns (CreatePost postData) x s =
     (case x of
        Inr resp \<Rightarrow> (Inr (data resp), s)
      | Inl error \<Rightarrow> (Inl error, console_error [AStr ''Error creating post:'', AErr error] s))"

text \<open>A call run from its start to its end with nothing in between: the function itself.\<close>

fun run_call ::
  "('n \<Rightarrow> string) \<Rightarrow> ('n::numeral) transport \<Rightarrow> 'n call \<Rightarrow> 'n world
     \<Rightarrow> ('n axios_error + 'n jsval) \<times> 'n world" where
  "run_call ns tr (FetchPosts limit0) s = fetchPosts tr limit0 s"
| "run_call ns tr (FetchPostById ident) s = fetchPostById ns tr ident s"
| "run_call ns tr (FetchUser ident) s = fetchUser ns tr ident s"
| "run_call ns tr (CreatePost postData) s = createPost tr postData s"

text \<open>
  Two calls issued together. A task is a call not yet started, a call waiting at its
  \<open>await\<close> with the settlement that will wake it, or a call that is over. A schedule says
  whose turn comes next (\<open>True\<close>: the first call); a turn runs the task's next half, and
  does nothing when the task is over.
\<close>

datatype 'n task =
    Fresh "'n call"
  | Suspended "'n call" "'n axios_error + 'n http_response"
  | Finished "'n axios_error + 'n jsval"

fun turn :: "('n \<Rightarrow> string) \<Rightarrow> ('n::numeral) transport \<Rightarrow> 'n task \<Rightarrow> 'n world \<Rightarrow> 'n task \<times> 'n world" where
  "turn ns tr (Fresh c) s =
     (case begin_call ns tr c s of
        (Awaiting x, s1) \<Rightarrow> (Suspended c x, s1)
      | (Returned r, s1) \<Rightarrow> (Finished r, s1))"
| "turn ns tr (Suspended c x) s = (case resume_call ns c x s of (r, s1) \<Rightarrow> (Finished r, s1))"
| "turn ns tr (Finished r) s = (Finished r, s)"

fun interleave ::
  "('n \<Rightarrow> string) \<Rightarrow> ('n::numeral) transport \<Rightarrow> bool list \<Rightarrow> 'n task \<times> 'n task \<times> 'n world
     \<Rightarrow> 'n task \<times> 'n task \<times> 'n world" where
  "interleave ns tr [] (a, b, s) = (a, b, s)"
| "interleave ns tr (first # sch) (a, b, s) =
     (if first
      then (case turn ns tr a s of (a', s') \<Rightarrow> interleave ns tr sch (a', b, s'))
      else (case turn ns tr b s of (b', s') \<Rightarrow> interleave ns tr sch (a, b', s')))"

fun result_of :: "'n task \<Rightarrow> ('n axios_error + 'n jsval) option" where
  "result_of (Finished r) = Some r"
| "result_of (Fresh c) = None"
| "result_of (Suspended c x) = None"

text \<open>
  What a task must be at any moment of a schedule that started from a state with the
  configuration of \<open>s0\<close>, and the number of turns it still needs.
\<close>

fun on_course ::
  "('n \<Rightarrow> string) \<Rightarrow> ('n::numeral) transport \<Rightarrow> 'n world \<Rightarrow> 'n call \<Rightarrow> 'n task \<Rightarrow> bool" where
  "on_course ns tr s0 c (Fresh c') = (c' = c)"
| "on_course ns tr s0 c (Suspended c' x) = (c' = c \<and> fst (begin_call ns tr c s0) = Awaiting x)"
| "on_course ns tr s0 c (Finished r) = (r = fst (run_call ns tr c s0))"

fun turns_left :: "'n task \<Rightarrow> nat" where
  "turns_left (Fresh c) = 2"
| "turns_left (Suspended c x) = 1"
| "turns_left (Finished r) = 0"

text \<open>Reading a decimal numeral back.\<close>

definition digit_value :: "char \<Rightarrow> nat" where
  "digit_value c = of_char c - 48"

definition decimal_value :: "string \<Rightarrow> nat" where
  "decimal_value xs = foldl (\<lambda>a c. 10 * a + digit_value c) 0 xs"

subsection \<open>Observing one call\<close>

text \<open>The requests handed to the instance and the console calls made between two states.\<close>

definition issued :: "'n world \<Rightarrow> 'n world \<Rightarrow> 'n http_request list" where
  "issued s s' = drop (length (wire s)) (wire s')"

definition logged :: "'n world \<Rightarrow> 'n world \<Rightarrow> 'n console_call list" where
  "logged s s' = drop (length (console s)) (console s')"

subsection \<open>The failure kinds of the specification\<close>

text \<open>
  Written from the words of the specification (section 4.1, failure classification), to be
  compared with the \<open>catch\<close> blocks of the module: a remote-responded error carries the
  status code and the response body, a no-response error the outbound request, a
  request-construction error a descriptive message.
\<close>

datatype 'n failure_kind =
    RemoteResponded nat "'n jsval"
  | NoResponse "'n http_request"
  | RequestConstruction string

definition spec_classify :: "'n axios_error \<Rightarrow> 'n failure_kind" where
  "spec_classify e =
     (case response e of
        Some r \<Rightarrow> RemoteResponded (status r) (data r)
      | None \<Rightarrow> (case request e of Some q \<Rightarrow> NoResponse q | None \<Rightarrow> RequestConstruction (message e)))"

text \<open>The console line with the message of each kind, as \<open>fetchPosts\<close> words them.\<close>

fun kind_line :: "'n failure_kind \<Rightarrow> 'n console_call" where
  "kind_line (RemoteResponded st d) = ConsoleError [AStr ''Server Error:'', ANum st, AVal d]"
| "kind_line (NoResponse q) = ConsoleError [AStr ''Network Error:'', AReq q]"
| "kind_line (RequestConstruction m) = ConsoleError [AStr ''Error:'', AStr m]"

subsection \<open>Remote services used as concrete inputs\<close>

text \<open>A service that answers every request: a POST with its body, a GET with the path.\<close>

definition echo_service :: "'n transport" where
  "echo_service cfg req =
     (case body req of
        Some d \<Rightarrow> Inr \<lparr>status = 201, data = d\<rparr>
      | None \<Rightarrow> Inr \<lparr>status = 200, data = JStr (url req)\<rparr>)"

text \<open>A service that answers every request with status 404.\<close>

definition error_404 :: "'n http_request \<Rightarrow> 'n axios_error" where
  "error_404 req =
     \<lparr>response = Some \<lparr>status = 404, data = JObj []\<rparr>, request = Some req,
      message = ''Request failed with status code 404''\<rparr>"

definition not_found_service :: "'n transport" where
  "not_found_service cfg req = Inl (error_404 req)"

text \<open>A network that delivers no response.\<close>

definition error_offline :: "'n http_request \<Rightarrow> 'n axios_error" where
  "error_offline req = \<lparr>response = None, request = Some req, message = ''Network Error''\<rparr>"

definition offline_service :: "'n transport" where
  "offline_service cfg req = Inl (error_offline req)"

text \<open>A transport that fails before a request object exists.\<close>

definition error_setup :: "'n axios_error" where
  "error_setup = \<lparr>response = None, request = None, message = ''Invalid URL''\<rparr>"

definition setup_failure :: "'n transport" where
  "setup_failure cfg req = Inl error_setup"

section \<open>What a call does, case by case\<close>

lemmas api_defs =
  fetchPosts_def fetchPostById_def fetchUser_def createPost_def
  client_get_def client_post_def dispatch_def console_error_def console_log_def

lemma fetchPosts_rejected:
  assumes "tr (client s) \<lparr>verb = GET, url = ''/posts'',
             params = [(''_limit'', if l = JUndefined then JNum 10 else l)], body = None\<rparr> = Inl e"
  shows "fetchPosts tr l s =
           (Inl e, s\<lparr>console := console s @ [kind_line (spec_classify e)],
                     wire := wire s @ [\<lparr>verb = GET, url = ''/posts'',
                       params = [(''_limit'', if l = JUndefined then JNum 10 else l)], body = None\<rparr>]\<rparr>)"
  using assms
  by (simp add: fetchPosts_def client_get_def dispatch_def console_error_def spec_classify_def
      split: option.splits)

lemma fetchPosts_fulfilled:
  assumes "tr (client s) \<lparr>verb = GET, url = ''/posts'',
             params = [(''_limit'', if l = JUndefined then JNum 10 else l)], body = None\<rparr> = Inr resp"
  shows "fetchPosts tr l s =
           (Inr (data resp), s\<lparr>wire := wire s @ [\<lparr>verb = GET, url = ''/posts'',
                       params = [(''_limit'', if l = JUndefined then JNum 10 else l)], body = None\<rparr>]\<rparr>)"
  using assms by (simp add: fetchPosts_def client_get_def dispatch_def)

lemma fetchPostById_unconvertible:
  assumes "ToString ns i = None"
  shows "fetchPostById ns tr i s = (Inl type_error, s)"
  using assms by (simp add: fetchPostById_def)

lemma fetchPostById_rejected:
  assumes "ToString ns i = Some p"
    and "tr (client s) \<lparr>verb = GET, url = ''/posts/'' @ p, params = [], body = None\<rparr> = Inl e"
  shows "fetchPostById ns tr i s =
           (Inl e, s\<lparr>console := console s @
                       [ConsoleError [AStr (''Error fetching post with ID '' @ p @ '':''), AErr e]],
                     wire := wire s @
                       [\<lparr>verb = GET, url = ''/posts/'' @ p, params = [], body = None\<rparr>]\<rparr>)"
  using assms by (simp add: api_defs)

lemma fetchPostById_fulfilled:
  assumes "ToString ns i = Some p"
    and "tr (client s) \<lparr>verb = GET, url = ''/posts/'' @ p, params = [], body = None\<rparr> = Inr resp"
  shows "fetchPostById ns tr i s =
           (Inr (data resp), s\<lparr>wire := wire s @
                       [\<lparr>verb = GET, url = ''/posts/'' @ p, params = [], body = None\<rparr>]\<rparr>)"
  using assms by (simp add: api_defs)

lemma fetchUser_unconvertible:
  assumes "ToString ns i = None"
  shows "fetchUser ns tr i s =
           (Inl type_error, s\<lparr>console := console s @ [ConsoleLog [AStr ''User fetch operation completed'']]\<rparr>)"
  using assms by (simp add: fetchUser_def console_log_def)

lemma fetchUser_rejected:
  assumes "ToString ns i = Some p"
    and "tr (client s) \<lparr>verb = GET, url = ''/users/'' @ p, params = [], body = None\<rparr> = Inl e"
  shows "fetchUser ns tr i s =
           (Inl e, s\<lparr>console := console s @
                       [ConsoleError [AStr (''Error fetching user with ID '' @ p @ '':''), AErr e],
                        ConsoleLog [AStr ''User fetch operation completed'']],
                     wire := wire s @
                       [\<lparr>verb = GET, url = ''/users/'' @ p, params = [], body = None\<rparr>]\<rparr>)"
  using assms by (simp add: api_defs)

lemma fetchUser_fulfilled:
  assumes "ToString ns i = Some p"
    and "tr (client s) \<lparr>verb = GET, url = ''/users/'' @ p, params = [], body = None\<rparr> = Inr resp"
  shows "fetchUser ns tr i s =
           (Inr (data resp), s\<lparr>console := console s @ [ConsoleLog [AStr ''User fetch operation completed'']],
                     wire := wire s @
                       [\<lparr>verb = GET, url = ''/users/'' @ p, params = [], body = None\<rparr>]\<rparr>)"
  using assms by (simp add: api_defs)

lemma createPost_rejected:
  assumes "tr (client s) \<lparr>verb = POST, url = ''/posts'', params = [], body = Some d\<rparr> = Inl e"
  shows "createPost tr d s =
           (Inl e, s\<lparr>console := console s @ [ConsoleError [AStr ''Error creating post:'', AErr e]],
                     wire := wire s @ [\<lparr>verb = POST, url = ''/posts'', params = [], body = Some d\<rparr>]\<rparr>)"
  using assms by (simp add: createPost_def client_post_def dispatch_def console_error_def)


lemma fetchPosts_wire:
  "wire (snd (fetchPosts tr l s)) =
     wire s @ [\<lparr>verb = GET, url = ''/posts'',
                 params = [(''_limit'', if l = JUndefined then JNum 10 else l)], body = None\<rparr>]"
proof (cases "tr (client s) \<lparr>verb = GET, url = ''/posts'',
                params = [(''_limit'', if l = JUndefined then JNum 10 else l)], body = None\<rparr>")
  case (Inl e)
  show ?thesis by (simp add: fetchPosts_rejected [of tr s l e, OF Inl])
next
  case (Inr resp)
  show ?thesis by (simp add: fetchPosts_fulfilled [of tr s l resp, OF Inr])
qed

lemma fetchPostById_wire:
  assumes "ToString ns i = Some p"
  shows "wire (snd (fetchPostById ns tr i s)) =
     wire s @ [\<lparr>verb = GET, url = ''/posts/'' @ p, params = [], body = None\<rparr>]"
  using assms by (simp add: api_defs split: sum.splits)

lemma fetchUser_wire:
  assumes "ToString ns i = Some p"
  shows "wire (snd (fetchUser ns tr i s)) =
     wire s @ [\<lparr>verb = GET, url = ''/users/'' @ p, params = [], body = None\<rparr>]"
  using assms by (simp add: api_defs split: sum.splits)

lemma createPost_wire:
  "wire (snd (createPost tr d s)) =
     wire s @ [\<lparr>verb = POST, url = ''/posts'', params = [], body = Some d\<rparr>]"
  by (simp add: api_defs split: sum.splits)

lemma converted_id_in_path:
  fixes tr :: "('n::numeral) transport"
  assumes conv: "ToString ns i = Some p"
  shows
    "issued s (snd (fetchPostById ns tr i s)) =
       [\<lparr>verb = GET, url = ''/posts/'' @ p, params = [], body = None\<rparr>]
     \<and> (\<forall>resp. tr (client s)
                 \<lparr>verb = GET, url = ''/posts/'' @ p, params = [], body = None\<rparr> = Inr resp \<longrightarrow>
          fst (fetchPostById ns tr i s) = Inr (data resp))
     \<and> issued s (snd (fetchUser ns tr i s)) =
       [\<lparr>verb = GET, url = ''/users/'' @ p, params = [], body = None\<rparr>]
     \<and> (\<forall>resp. tr (client s)
                 \<lparr>verb = GET, url = ''/users/'' @ p, params = [], body = None\<rparr> = Inr resp \<longrightarrow>
          fst (fetchUser ns tr i s) = Inr (data resp))"
proof (intro conjI allI impI)
  show "issued s (snd (fetchPostById ns tr i s)) =
          [\<lparr>verb = GET, url = ''/posts/'' @ p, params = [], body = None\<rparr>]"
    by (simp add: issued_def fetchPostById_wire [OF conv])
  show "issued s (snd (fetchUser ns tr i s)) =
          [\<lparr>verb = GET, url = ''/users/'' @ p, params = [], body = None\<rparr>]"
    by (simp add: issued_def fetchUser_wire [OF conv])
next
  fix resp
  assume ok: "tr (client s) \<lparr>verb = GET, url = ''/posts/'' @ p, params = [], body = None\<rparr> = Inr resp"
  show "fst (fetchPostById ns tr i s) = Inr (data resp)"
    by (simp add: fetchPostById_fulfilled [where tr = tr and s = s, OF conv ok])
next
  fix resp
  assume ok: "tr (client s) \<lparr>verb = GET, url = ''/users/'' @ p, params = [], body = None\<rparr> = Inr resp"
  show "fst (fetchUser ns tr i s) = Inr (data resp)"
    by (simp add: fetchUser_fulfilled [where tr = tr and s = s, OF conv ok])
qed

subsection \<open>Decimal notation determines the integer\<close>

declare decimal_nat.simps [simp del]

lemma digit_cases:
  assumes "d < (10::nat)"
  shows "d = 0 \<or> d = 1 \<or> d = 2 \<or> d = 3 \<or> d = 4 \<or> d = 5 \<or> d = 6 \<or> d = 7 \<or> d = 8 \<or> d = 9"
  using assms by arith

lemma digit_value_digit:
  assumes "d < 10"
  shows "digit_value (''0123456789'' ! d) = d"
  using digit_cases [OF assms] by (auto simp: digit_value_def)

lemma digit_not_minus:
  assumes "d < 10"
  shows "''0123456789'' ! d \<noteq> CHR ''-''"
  using digit_cases [OF assms] by auto

lemma decimal_value_decimal_nat: "decimal_value (decimal_nat n) = n"
proof (induction n rule: decimal_nat.induct)
  case (1 n)
  show ?case
  proof (cases "n < 10")
    case True
    then show ?thesis
      by (subst decimal_nat.simps) (simp add: decimal_value_def digit_value_digit)
  next
    case False
    have "decimal_value (decimal_nat n) =
            10 * decimal_value (decimal_nat (n div 10)) + digit_value (''0123456789'' ! (n mod 10))"
      using False by (subst decimal_nat.simps) (simp add: decimal_value_def)
    also have "\<dots> = 10 * (n div 10) + n mod 10"
      using 1 [OF False] by (simp add: digit_value_digit)
    finally show ?thesis by simp
  qed
qed

lemma decimal_nat_inj:
  assumes "decimal_nat m = decimal_nat n"
  shows "m = n"
proof -
  have "decimal_value (decimal_nat m) = decimal_value (decimal_nat n)"
    using assms by simp
  then show ?thesis by (simp add: decimal_value_decimal_nat)
qed

lemma decimal_nat_hd: "decimal_nat n \<noteq> [] \<and> hd (decimal_nat n) \<noteq> CHR ''-''"
proof (induction n rule: decimal_nat.induct)
  case (1 n)
  show ?case
  proof (cases "n < 10")
    case True
    then show ?thesis
      by (subst decimal_nat.simps, subst decimal_nat.simps) (simp add: digit_not_minus)
  next
    case False
    then show ?thesis
      using 1 [OF False]
      by (subst decimal_nat.simps, subst decimal_nat.simps) simp
  qed
qed

lemma decimal_inj:
  assumes "decimal i = decimal j"
  shows "i = j"
proof -
  have no_minus: "''-'' @ decimal_nat m \<noteq> decimal_nat n" for m n
  proof
    assume "''-'' @ decimal_nat m = decimal_nat n"
    then have "hd (decimal_nat n) = CHR ''-''"
      by (metis append_Cons list.sel(1))
    then show False using decimal_nat_hd [of n] by simp
  qed
  show ?thesis
  proof (cases "i < 0")
    case i: True
    show ?thesis
    proof (cases "j < 0")
      case True
      with i assms have "decimal_nat (nat (- i)) = decimal_nat (nat (- j))"
        by (simp add: decimal_def)
      then have "nat (- i) = nat (- j)" by (rule decimal_nat_inj)
      with i True show ?thesis by simp
    next
      case False
      with i assms no_minus [of "nat (- i)" "nat j"] show ?thesis
        by (simp add: decimal_def)
    qed
  next
    case i: False
    show ?thesis
    proof (cases "j < 0")
      case True
      with i assms no_minus [of "nat (- j)" "nat i"] show ?thesis
        by (simp add: decimal_def)
    next
      case False
      with i assms have "decimal_nat (nat i) = decimal_nat (nat j)"
        by (simp add: decimal_def)
      then have "nat i = nat j" by (rule decimal_nat_inj)
      with i False show ?thesis by simp
    qed
  qed
qed

lemmas decimal_eval = decimal_def decimal_nat.simps

subsection \<open>The two halves of a call\<close>

lemma run_call_halves:
  "run_call ns tr c s =
     (case begin_call ns tr c s of
        (Returned r, s1) \<Rightarrow> (r, s1)
      | (Awaiting x, s1) \<Rightarrow> resume_call ns c x s1)"
  by (cases c) (simp_all add: api_defs Let_def split: option.splits sum.splits)

lemma begin_call_client: "client (snd (begin_call ns tr c s)) = client s"
  by (cases c) (simp_all add: api_defs Let_def split: option.splits)

lemma resume_call_client: "client (snd (resume_call ns c x s)) = client s"
  by (cases c) (simp_all add: api_defs split: option.splits sum.splits)

lemma begin_call_reads_client:
  assumes "client s' = client s"
  shows "fst (begin_call ns tr c s') = fst (begin_call ns tr c s)"
  using assms by (cases c) (simp_all add: api_defs Let_def split: option.splits)

lemma resume_call_reads_nothing: "fst (resume_call ns c x s') = fst (resume_call ns c x s)"
  by (cases c) (simp_all add: api_defs split: option.splits sum.splits)

lemma run_call_result:
  "fst (run_call ns tr c s) =
     (case fst (begin_call ns tr c s) of
        Returned r \<Rightarrow> r
      | Awaiting x \<Rightarrow> fst (resume_call ns c x s'))"
proof (cases "begin_call ns tr c s")
  case (Pair p s1)
  show ?thesis
  proof (cases p)
    case (Awaiting x)
    with Pair show ?thesis
      by (simp add: run_call_halves resume_call_reads_nothing [of ns c x s1 s'])
  next
    case (Returned r)
    with Pair show ?thesis by (simp add: run_call_halves)
  qed
qed

lemma run_call_reads_client:
  assumes "client s' = client s"
  shows "fst (run_call ns tr c s') = fst (run_call ns tr c s)"
  by (simp add: run_call_result [of ns tr c s' s] run_call_result [of ns tr c s s]
      begin_call_reads_client [OF assms])

lemma turn_on_course:
  assumes "on_course ns tr s0 c t" and "client s = client s0"
  shows "on_course ns tr s0 c (fst (turn ns tr t s))
         \<and> client (snd (turn ns tr t s)) = client s0
         \<and> turns_left (fst (turn ns tr t s)) \<le> turns_left t - 1"
proof (cases t)
  case (Fresh c')
  with assms have c: "c' = c" by simp
  obtain p s1 where b: "begin_call ns tr c s = (p, s1)" by (cases "begin_call ns tr c s")
  have cl: "client s1 = client s0"
    using begin_call_client [of ns tr c s] b assms(2) by simp
  have same: "fst (begin_call ns tr c s0) = p"
    using begin_call_reads_client [of s s0 ns tr c] b assms(2) by simp
  show ?thesis
  proof (cases p)
    case (Awaiting x)
    with Fresh c b cl same show ?thesis by simp
  next
    case (Returned r)
    have "fst (run_call ns tr c s0) = r"
      using same Returned by (simp add: run_call_result [of ns tr c s0 s0])
    with Fresh c b cl Returned show ?thesis by simp
  qed
next
  case (Suspended c' x)
  with assms have c: "c' = c" and x: "fst (begin_call ns tr c s0) = Awaiting x" by simp_all
  obtain r s1 where r: "resume_call ns c x s = (r, s1)" by (cases "resume_call ns c x s")
  have cl: "client s1 = client s0"
    using resume_call_client [of ns c x s] r assms(2) by simp
  have "fst (run_call ns tr c s0) = r"
    using x r by (simp add: run_call_result [of ns tr c s0 s])
  with Suspended c r cl show ?thesis by simp
next
  case (Finished r)
  with assms show ?thesis by simp
qed

lemma interleave_on_course:
  assumes "on_course ns tr s0 ca a" and "on_course ns tr s0 cb b" and "client s = client s0"
  shows "on_course ns tr s0 ca (fst (interleave ns tr sch (a, b, s)))
         \<and> on_course ns tr s0 cb (fst (snd (interleave ns tr sch (a, b, s))))
         \<and> client (snd (snd (interleave ns tr sch (a, b, s)))) = client s0
         \<and> turns_left (fst (interleave ns tr sch (a, b, s))) \<le> turns_left a - count_list sch True
         \<and> turns_left (fst (snd (interleave ns tr sch (a, b, s)))) \<le> turns_left b - count_list sch False"
  using assms
proof (induction sch arbitrary: a b s)
  case Nil
  then show ?case by simp
next
  case (Cons first sch)
  show ?case
  proof (cases first)
    case True
    obtain a' s' where t: "turn ns tr a s = (a', s')" by (cases "turn ns tr a s")
    have step: "on_course ns tr s0 ca a'" "client s' = client s0" "turns_left a' \<le> turns_left a - 1"
      using turn_on_course [OF Cons.prems(1) Cons.prems(3)] t by simp_all
    from Cons.IH [OF step(1) Cons.prems(2) step(2)] step(3) True t
    show ?thesis by (simp, arith)
  next
    case False
    obtain b' s' where t: "turn ns tr b s = (b', s')" by (cases "turn ns tr b s")
    have step: "on_course ns tr s0 cb b'" "client s' = client s0" "turns_left b' \<le> turns_left b - 1"
      using turn_on_course [OF Cons.prems(2) Cons.prems(3)] t by simp_all
    from Cons.IH [OF Cons.prems(1) step(1) step(2)] step(3) False t
    show ?thesis by (simp, arith)
  qed
qed

lemma finished_result:
  assumes "on_course ns tr s0 c t" and "turns_left t = 0"
  shows "result_of t = Some (fst (run_call ns tr c s0))"
  using assms by (cases t) simp_all

section \<open>The claims\<close>

text \<open>
  C2. For each of the four functions and every rejection \<open>e\<close> of the request it hands to
  the instance: the function writes a \<open>console.error\<close> line and throws the same value \<open>e\<close>
  to its caller; the request is issued once and not again (no retry), and no other value
  takes the place of \<open>e\<close>.
\<close>

theorem failure_logged_and_rethrown:
  fixes tr :: "('n::numeral) transport"
  shows
    "(\<forall>e. tr (client s) \<lparr>verb = GET, url = ''/posts'',
              params = [(''_limit'', if l = JUndefined then JNum 10 else l)], body = None\<rparr> = Inl e \<longrightarrow>
        fst (fetchPosts tr l s) = Inl e \<and>
        length (issued s (snd (fetchPosts tr l s))) = 1 \<and>
        (\<exists>args rest. logged s (snd (fetchPosts tr l s)) = ConsoleError args # rest))
     \<and>
     (\<forall>p e. ToString ns i = Some p \<longrightarrow>
        tr (client s) \<lparr>verb = GET, url = ''/posts/'' @ p, params = [], body = None\<rparr> = Inl e \<longrightarrow>
        fst (fetchPostById ns tr i s) = Inl e \<and>
        length (issued s (snd (fetchPostById ns tr i s))) = 1 \<and>
        (\<exists>args rest. logged s (snd (fetchPostById ns tr i s)) = ConsoleError args # rest))
     \<and>
     (\<forall>p e. ToString ns i = Some p \<longrightarrow>
        tr (client s) \<lparr>verb = GET, url = ''/users/'' @ p, params = [], body = None\<rparr> = Inl e \<longrightarrow>
        fst (fetchUser ns tr i s) = Inl e \<and>
        length (issued s (snd (fetchUser ns tr i s))) = 1 \<and>
        (\<exists>args rest. logged s (snd (fetchUser ns tr i s)) = ConsoleError args # rest))
     \<and>
     (\<forall>e. tr (client s) \<lparr>verb = POST, url = ''/posts'', params = [], body = Some d\<rparr> = Inl e \<longrightarrow>
        fst (createPost tr d s) = Inl e \<and>
        length (issued s (snd (createPost tr d s))) = 1 \<and>
        (\<exists>args rest. logged s (snd (createPost tr d s)) = ConsoleError args # rest))"
proof (intro conjI allI impI)
  fix e
  assume "tr (client s) \<lparr>verb = GET, url = ''/posts'',
            params = [(''_limit'', if l = JUndefined then JNum 10 else l)], body = None\<rparr> = Inl e"
  note r = fetchPosts_rejected [of tr s l e, OF this]
  show "fst (fetchPosts tr l s) = Inl e" by (simp add: r)
  show "length (issued s (snd (fetchPosts tr l s))) = 1" by (simp add: r issued_def)
  show "\<exists>args rest. logged s (snd (fetchPosts tr l s)) = ConsoleError args # rest"
    by (cases "spec_classify e") (simp_all add: r logged_def)
next
  fix p e
  assume conv: "ToString ns i = Some p"
    and rej: "tr (client s) \<lparr>verb = GET, url = ''/posts/'' @ p, params = [], body = None\<rparr> = Inl e"
  note r = fetchPostById_rejected [where tr = tr and s = s, OF conv rej]
  show "fst (fetchPostById ns tr i s) = Inl e" by (simp add: r)
  show "length (issued s (snd (fetchPostById ns tr i s))) = 1" by (simp add: r issued_def)
  show "\<exists>args rest. logged s (snd (fetchPostById ns tr i s)) = ConsoleError args # rest"
    by (simp add: r logged_def)
next
  fix p e
  assume conv: "ToString ns i = Some p"
    and rej: "tr (client s) \<lparr>verb = GET, url = ''/users/'' @ p, params = [], body = None\<rparr> = Inl e"
  note r = fetchUser_rejected [where tr = tr and s = s, OF conv rej]
  show "fst (fetchUser ns tr i s) = Inl e" by (simp add: r)
  show "length (issued s (snd (fetchUser ns tr i s))) = 1" by (simp add: r issued_def)
  show "\<exists>args rest. logged s (snd (fetchUser ns tr i s)) = ConsoleError args # rest"
    by (simp add: r logged_def)
next
  fix e
  assume "tr (client s) \<lparr>verb = POST, url = ''/posts'', params = [], body = Some d\<rparr> = Inl e"
  note r = createPost_rejected [of tr s d e, OF this]
  show "fst (createPost tr d s) = Inl e" by (simp add: r)
  show "length (issued s (snd (createPost tr d s))) = 1" by (simp add: r issued_def)
  show "\<exists>args rest. logged s (snd (createPost tr d s)) = ConsoleError args # rest"
    by (simp add: r logged_def)
qed

theorem failure_logged_and_rethrown_witness:
  "fst (fetchPosts offline_service (JNum (5::int)) init_world) =
     Inl (error_offline \<lparr>verb = GET, url = ''/posts'', params = [(''_limit'', JNum 5)], body = None\<rparr>)
   \<and> length (issued init_world (snd (fetchPosts offline_service (JNum (5::int)) init_world))) = 1
   \<and> fst (fetchPostById decimal offline_service (JNum 7) init_world) =
       Inl (error_offline \<lparr>verb = GET, url = ''/posts/7'', params = [], body = None\<rparr>)
   \<and> fst (fetchUser decimal offline_service (JNum 7) init_world) =
       Inl (error_offline \<lparr>verb = GET, url = ''/users/7'', params = [], body = None\<rparr>)
   \<and> fst (createPost offline_service (JObj [(''title'', JStr ''foo'')]) (init_world :: int world)) =
       Inl (error_offline \<lparr>verb = POST, url = ''/posts'', params = [],
              body = Some (JObj [(''title'', JStr ''foo'')])\<rparr>)"
  using failure_logged_and_rethrown
    [of offline_service init_world "JNum 5" decimal "JNum 7" "JObj [(''title'', JStr ''foo'')]"]
  by (simp add: offline_service_def decimal_eval)



text \<open>
  C4. For every id and every way the request settles (a response, or a rejection of any
  of the three kinds), one call of \<open>fetchUser\<close> makes the console call
  \<open>console.log('User fetch operation completed')\<close> exactly once, and it is the last thing
  the call writes.
\<close>

theorem fetchUser_completion_notice_once:
  "count_list (logged s (snd (fetchUser ns tr i s)))
     (ConsoleLog [AStr ''User fetch operation completed'']) = 1
   \<and> last (console (snd (fetchUser ns tr i s))) = ConsoleLog [AStr ''User fetch operation completed'']"
proof (cases "ToString ns i")
  case None
  show ?thesis by (simp add: fetchUser_unconvertible [OF None] logged_def)
next
  case (Some p)
  show ?thesis
  proof (cases "tr (client s) \<lparr>verb = GET, url = ''/users/'' @ p, params = [], body = None\<rparr>")
    case (Inl e)
    show ?thesis
      by (simp add: fetchUser_rejected [where tr = tr and s = s, OF Some Inl] logged_def)
  next
    case (Inr resp)
    show ?thesis
      by (simp add: fetchUser_fulfilled [where tr = tr and s = s, OF Some Inr] logged_def)
  qed
qed

theorem fetchUser_completion_notice_once_witness:
  "count_list (logged init_world (snd (fetchUser decimal echo_service (JNum 1) init_world)))
     (ConsoleLog [AStr ''User fetch operation completed'']) = 1
   \<and> count_list (logged init_world (snd (fetchUser decimal not_found_service (JNum 1) init_world)))
     (ConsoleLog [AStr ''User fetch operation completed'']) = 1
   \<and> count_list (logged init_world (snd (fetchUser decimal offline_service (JNum 1) init_world)))
     (ConsoleLog [AStr ''User fetch operation completed'']) = 1
   \<and> count_list (logged init_world (snd (fetchUser decimal setup_failure (JNum 1) init_world)))
     (ConsoleLog [AStr ''User fetch operation completed'']) = 1"
  using fetchUser_completion_notice_once [of init_world decimal echo_service "JNum 1"]
    fetchUser_completion_notice_once [of init_world decimal not_found_service "JNum 1"]
    fetchUser_completion_notice_once [of init_world decimal offline_service "JNum 1"]
    fetchUser_completion_notice_once [of init_world decimal setup_failure "JNum 1"]
  by simp

text \<open>
  C5. For every payload \<open>d\<close>, \<open>createPost(d)\<close> hands exactly one request to the instance:
  a POST of \<open>/posts\<close> whose body is \<open>d\<close> itself; when the response arrives, the function
  returns its \<open>data\<close> as it is.
\<close>

theorem createPost_passes_through:
  "issued s (snd (createPost tr d s)) =
     [\<lparr>verb = POST, url = ''/posts'', params = [], body = Some d\<rparr>]
   \<and>
   (\<forall>resp. tr (client s) \<lparr>verb = POST, url = ''/posts'', params = [], body = Some d\<rparr> = Inr resp \<longrightarrow>
      fst (createPost tr d s) = Inr (data resp))"
proof (intro conjI allI impI)
  show "issued s (snd (createPost tr d s)) =
          [\<lparr>verb = POST, url = ''/posts'', params = [], body = Some d\<rparr>]"
    by (simp add: issued_def createPost_wire)
next
  fix resp
  assume "tr (client s) \<lparr>verb = POST, url = ''/posts'', params = [], body = Some d\<rparr> = Inr resp"
  then show "fst (createPost tr d s) = Inr (data resp)"
    by (simp add: api_defs)
qed

theorem createPost_passes_through_witness:
  "issued init_world
     (snd (createPost echo_service
        (JObj [(''title'', JStr ''foo''), (''body'', JStr ''bar''), (''userId'', JNum (1::int))])
        init_world)) =
     [\<lparr>verb = POST, url = ''/posts'', params = [],
        body = Some (JObj [(''title'', JStr ''foo''), (''body'', JStr ''bar''), (''userId'', JNum 1)])\<rparr>]
   \<and> fst (createPost echo_service
        (JObj [(''title'', JStr ''foo''), (''body'', JStr ''bar''), (''userId'', JNum (1::int))])
        init_world) =
     Inr (JObj [(''title'', JStr ''foo''), (''body'', JStr ''bar''), (''userId'', JNum 1)])"
  using createPost_passes_through
    [of init_world echo_service
      "JObj [(''title'', JStr ''foo''), (''body'', JStr ''bar''), (''userId'', JNum (1::int))]"]
  by (simp add: echo_service_def)

text \<open>
  C7. The configuration of the instance is built once: the base URL
  \<open>https://jsonplaceholder.typicode.com\<close>, the headers \<open>Content-Type: application/json\<close>
  and \<open>Accept: application/json\<close>, and a timeout of 10 seconds (10000 milliseconds). None
  of the four functions changes it: it is the same after a call as before.
\<close>

theorem configuration_fixed:
  fixes s :: "('n::numeral) world"
  shows
    "client (init_world :: 'n world) = apiClient
     \<and> baseURL apiClient = ''https://jsonplaceholder.typicode.com''
     \<and> headers apiClient =
         [(''Content-Type'', ''application/json''), (''Accept'', ''application/json'')]
     \<and> timeout apiClient = 10 * 1000
     \<and> client (snd (fetchPosts tr l s)) = client s
     \<and> client (snd (fetchPostById ns tr i s)) = client s
     \<and> client (snd (fetchUser ns tr i s)) = client s
     \<and> client (snd (createPost tr d s)) = client s"
proof (intro conjI)
  show "client (init_world :: 'n world) = apiClient" by (simp add: init_world_def)
  show "baseURL apiClient = ''https://jsonplaceholder.typicode.com''" by (simp add: apiClient_def)
  show "headers apiClient =
          [(''Content-Type'', ''application/json''), (''Accept'', ''application/json'')]"
    by (simp add: apiClient_def)
  show "timeout apiClient = 10 * 1000" by (simp add: apiClient_def)
  show "client (snd (fetchPosts tr l s)) = client s"
  proof (cases "tr (client s) \<lparr>verb = GET, url = ''/posts'',
                  params = [(''_limit'', if l = JUndefined then JNum 10 else l)], body = None\<rparr>")
    case (Inl e)
    show ?thesis by (simp add: fetchPosts_rejected [of tr s l e, OF Inl])
  next
    case (Inr resp)
    show ?thesis by (simp add: fetchPosts_fulfilled [of tr s l resp, OF Inr])
  qed
  show "client (snd (fetchPostById ns tr i s)) = client s"
    by (simp add: api_defs split: sum.splits option.splits)
  show "client (snd (fetchUser ns tr i s)) = client s"
    by (simp add: api_defs split: sum.splits option.splits)
  show "client (snd (createPost tr d s)) = client s"
    by (simp add: api_defs split: sum.splits)
qed

text \<open>
  C1, as the code has it. Only \<open>fetchPosts\<close> tells the three kinds of failure apart before
  it throws: a response present (it writes the status code and the response body), else a
  request present (it writes the request), else neither (it writes the message).
  \<open>fetchPostById\<close>, \<open>fetchUser\<close> and \<open>createPost\<close> do not look at the kind: each writes one
  \<open>console.error\<close> line that names the operation (and the id) and carries the caught value
  itself, then throws it.
\<close>

theorem three_way_split_only_in_fetchPosts:
  fixes tr :: "('n::numeral) transport"
  shows
    "(\<forall>e. tr (client s) \<lparr>verb = GET, url = ''/posts'',
              params = [(''_limit'', if l = JUndefined then JNum 10 else l)], body = None\<rparr> = Inl e \<longrightarrow>
        fst (fetchPosts tr l s) = Inl e \<and>
        logged s (snd (fetchPosts tr l s)) = [kind_line (spec_classify e)])
     \<and>
     (\<forall>p e. ToString ns i = Some p \<longrightarrow>
        tr (client s) \<lparr>verb = GET, url = ''/posts/'' @ p, params = [], body = None\<rparr> = Inl e \<longrightarrow>
        fst (fetchPostById ns tr i s) = Inl e \<and>
        logged s (snd (fetchPostById ns tr i s)) =
          [ConsoleError [AStr (''Error fetching post with ID '' @ p @ '':''), AErr e]])
     \<and>
     (\<forall>p e. ToString ns i = Some p \<longrightarrow>
        tr (client s) \<lparr>verb = GET, url = ''/users/'' @ p, params = [], body = None\<rparr> = Inl e \<longrightarrow>
        fst (fetchUser ns tr i s) = Inl e \<and>
        logged s (snd (fetchUser ns tr i s)) =
          [ConsoleError [AStr (''Error fetching user with ID '' @ p @ '':''), AErr e],
           ConsoleLog [AStr ''User fetch operation completed'']])
     \<and>
     (\<forall>e. tr (client s) \<lparr>verb = POST, url = ''/posts'', params = [], body = Some d\<rparr> = Inl e \<longrightarrow>
        fst (createPost tr d s) = Inl e \<and>
        logged s (snd (createPost tr d s)) = [ConsoleError [AStr ''Error creating post:'', AErr e]])"
proof (intro conjI allI impI)
  fix e
  assume "tr (client s) \<lparr>verb = GET, url = ''/posts'',
            params = [(''_limit'', if l = JUndefined then JNum 10 else l)], body = None\<rparr> = Inl e"
  note r = fetchPosts_rejected [of tr s l e, OF this]
  show "fst (fetchPosts tr l s) = Inl e" by (simp add: r)
  show "logged s (snd (fetchPosts tr l s)) = [kind_line (spec_classify e)]"
    by (simp add: r logged_def)
next
  fix p e
  assume conv: "ToString ns i = Some p"
    and rej: "tr (client s) \<lparr>verb = GET, url = ''/posts/'' @ p, params = [], body = None\<rparr> = Inl e"
  note r = fetchPostById_rejected [where tr = tr and s = s, OF conv rej]
  show "fst (fetchPostById ns tr i s) = Inl e" by (simp add: r)
  show "logged s (snd (fetchPostById ns tr i s)) =
          [ConsoleError [AStr (''Error fetching post with ID '' @ p @ '':''), AErr e]]"
    by (simp add: r logged_def)
next
  fix p e
  assume conv: "ToString ns i = Some p"
    and rej: "tr (client s) \<lparr>verb = GET, url = ''/users/'' @ p, params = [], body = None\<rparr> = Inl e"
  note r = fetchUser_rejected [where tr = tr and s = s, OF conv rej]
  show "fst (fetchUser ns tr i s) = Inl e" by (simp add: r)
  show "logged s (snd (fetchUser ns tr i s)) =
          [ConsoleError [AStr (''Error fetching user with ID '' @ p @ '':''), AErr e],
           ConsoleLog [AStr ''User fetch operation completed'']]"
    by (simp add: r logged_def)
next
  fix e
  assume "tr (client s) \<lparr>verb = POST, url = ''/posts'', params = [], body = Some d\<rparr> = Inl e"
  note r = createPost_rejected [of tr s d e, OF this]
  show "fst (createPost tr d s) = Inl e" by (simp add: r)
  show "logged s (snd (createPost tr d s)) = [ConsoleError [AStr ''Error creating post:'', AErr e]]"
    by (simp add: r logged_def)
qed

theorem three_way_split_only_in_fetchPosts_witness:
  "logged init_world (snd (fetchPosts not_found_service (JNum (5::int)) init_world)) =
     [ConsoleError [AStr ''Server Error:'', ANum 404, AVal (JObj [])]]
   \<and> logged init_world (snd (fetchPosts offline_service (JNum (5::int)) init_world)) =
     [ConsoleError [AStr ''Network Error:'',
        AReq \<lparr>verb = GET, url = ''/posts'', params = [(''_limit'', JNum 5)], body = None\<rparr>]]
   \<and> logged init_world (snd (fetchPosts setup_failure (JNum (5::int)) init_world)) =
     [ConsoleError [AStr ''Error:'', AStr ''Invalid URL'']]
   \<and> logged init_world (snd (fetchPostById decimal not_found_service (JNum 1) init_world)) =
     [ConsoleError [AStr ''Error fetching post with ID 1:'',
        AErr (error_404 \<lparr>verb = GET, url = ''/posts/1'', params = [], body = None\<rparr>)]]
   \<and> logged init_world (snd (fetchUser decimal offline_service (JNum 1) init_world)) =
     [ConsoleError [AStr ''Error fetching user with ID 1:'',
        AErr (error_offline \<lparr>verb = GET, url = ''/users/1'', params = [], body = None\<rparr>)],
      ConsoleLog [AStr ''User fetch operation completed'']]
   \<and> logged init_world (snd (createPost setup_failure (JStr ''x'') (init_world :: int world))) =
     [ConsoleError [AStr ''Error creating post:'', AErr error_setup]]"
  using
    three_way_split_only_in_fetchPosts
      [of not_found_service init_world "JNum 5" decimal "JNum 1" "JStr ''x''"]
    three_way_split_only_in_fetchPosts
      [of offline_service init_world "JNum 5" decimal "JNum 1" "JStr ''x''"]
    three_way_split_only_in_fetchPosts
      [of setup_failure init_world "JNum 5" decimal "JNum 1" "JStr ''x''"]
  by (simp add: not_found_service_def offline_service_def setup_failure_def decimal_eval
      spec_classify_def error_404_def error_offline_def error_setup_def)

text \<open>
  C1, as the specification words it, fails for \<open>fetchPostById\<close>: when the remote service
  answers 404, the line \<open>fetchPostById(1)\<close> writes is the generic one, not the line of the
  remote-responded kind with the status code and the response body.
\<close>

theorem fetchPostById_no_three_way_split:
  "spec_classify (error_404 \<lparr>verb = GET, url = ''/posts/1'', params = [], body = None\<rparr>
      :: int axios_error) = RemoteResponded 404 (JObj [])
   \<and> logged init_world (snd (fetchPostById decimal not_found_service (JNum 1) init_world)) =
       [ConsoleError [AStr ''Error fetching post with ID 1:'',
          AErr (error_404 \<lparr>verb = GET, url = ''/posts/1'', params = [], body = None\<rparr>)]]
   \<and> logged init_world (snd (fetchPostById decimal not_found_service (JNum 1) init_world)) \<noteq>
       [kind_line (spec_classify
          (error_404 \<lparr>verb = GET, url = ''/posts/1'', params = [], body = None\<rparr>))]"
  by (simp add: api_defs logged_def not_found_service_def error_404_def spec_classify_def
      init_world_def decimal_eval)

text \<open>
  C6. For every id that is an integer (a safe integer, which a JavaScript number holds
  exactly), \<open>fetchPostById(id)\<close> hands one GET to the instance whose path is \<open>/posts/\<close>
  followed by the decimal notation of the id, and \<open>fetchUser(id)\<close> one GET whose path is
  \<open>/users/\<close> followed by it; different ids give different paths; when the response
  arrives, each returns its \<open>data\<close>. The same holds of every id that the template literal
  converts to a string, with its conversion in the path.
\<close>

theorem path_carries_id:
  fixes tr :: "('n::numeral) transport" and trz :: "int transport"
  shows
    "(safe_integer n \<longrightarrow>
        issued sz (snd (fetchPostById decimal trz (JNum n) sz)) =
          [\<lparr>verb = GET, url = ''/posts/'' @ decimal n, params = [], body = None\<rparr>]
        \<and> (\<forall>resp. trz (client sz)
                    \<lparr>verb = GET, url = ''/posts/'' @ decimal n, params = [], body = None\<rparr> = Inr resp \<longrightarrow>
             fst (fetchPostById decimal trz (JNum n) sz) = Inr (data resp))
        \<and> issued sz (snd (fetchUser decimal trz (JNum n) sz)) =
          [\<lparr>verb = GET, url = ''/users/'' @ decimal n, params = [], body = None\<rparr>]
        \<and> (\<forall>resp. trz (client sz)
                    \<lparr>verb = GET, url = ''/users/'' @ decimal n, params = [], body = None\<rparr> = Inr resp \<longrightarrow>
             fst (fetchUser decimal trz (JNum n) sz) = Inr (data resp)))
     \<and>
     (safe_integer n \<and> safe_integer m \<and> n \<noteq> m \<longrightarrow>
        issued sz (snd (fetchPostById decimal trz (JNum n) sz)) \<noteq>
          issued sz (snd (fetchPostById decimal trz (JNum m) sz))
        \<and> issued sz (snd (fetchUser decimal trz (JNum n) sz)) \<noteq>
          issued sz (snd (fetchUser decimal trz (JNum m) sz)))
     \<and>
     (\<forall>p. ToString ns i = Some p \<longrightarrow>
        issued s (snd (fetchPostById ns tr i s)) =
          [\<lparr>verb = GET, url = ''/posts/'' @ p, params = [], body = None\<rparr>]
        \<and> (\<forall>resp. tr (client s)
                    \<lparr>verb = GET, url = ''/posts/'' @ p, params = [], body = None\<rparr> = Inr resp \<longrightarrow>
             fst (fetchPostById ns tr i s) = Inr (data resp))
        \<and> issued s (snd (fetchUser ns tr i s)) =
          [\<lparr>verb = GET, url = ''/users/'' @ p, params = [], body = None\<rparr>]
        \<and> (\<forall>resp. tr (client s)
                    \<lparr>verb = GET, url = ''/users/'' @ p, params = [], body = None\<rparr> = Inr resp \<longrightarrow>
             fst (fetchUser ns tr i s) = Inr (data resp)))"
proof -
  have num: "ToString decimal (JNum k) = Some (decimal k)" for k by simp
  have distinct:
    "issued sz (snd (fetchPostById decimal trz (JNum n) sz)) \<noteq>
       issued sz (snd (fetchPostById decimal trz (JNum m) sz))
     \<and> issued sz (snd (fetchUser decimal trz (JNum n) sz)) \<noteq>
       issued sz (snd (fetchUser decimal trz (JNum m) sz))"
    if "n \<noteq> m"
  proof -
    from that have "decimal n \<noteq> decimal m" using decimal_inj by blast
    then show ?thesis
      by (simp add: issued_def fetchPostById_wire [OF num] fetchUser_wire [OF num])
  qed
  show ?thesis
    using converted_id_in_path [where tr = trz and s = sz, OF num [of n]]
      converted_id_in_path [where ns = ns and i = i and tr = tr and s = s] distinct
    by blast
qed

theorem path_carries_id_witness:
  "safe_integer 42 \<and> safe_integer 43
   \<and> issued init_world (snd (fetchPostById decimal echo_service (JNum 42) init_world)) =
     [\<lparr>verb = GET, url = ''/posts/42'', params = [], body = None\<rparr>]
   \<and> fst (fetchPostById decimal echo_service (JNum 42) init_world) = Inr (JStr ''/posts/42'')
   \<and> issued init_world (snd (fetchUser decimal echo_service (JNum 42) init_world)) =
     [\<lparr>verb = GET, url = ''/users/42'', params = [], body = None\<rparr>]
   \<and> fst (fetchUser decimal echo_service (JNum 42) init_world) = Inr (JStr ''/users/42'')
   \<and> issued init_world (snd (fetchPostById decimal echo_service (JNum 42) init_world)) \<noteq>
     issued init_world (snd (fetchPostById decimal echo_service (JNum 43) init_world))
   \<and> issued init_world (snd (fetchPostById decimal echo_service (JStr ''first'') init_world)) =
     [\<lparr>verb = GET, url = ''/posts/first'', params = [], body = None\<rparr>]"
proof -
  have safe: "safe_integer 42" "safe_integer 43" by (simp_all add: safe_integer_def)
  show ?thesis
    using safe
      path_carries_id [where n = 42 and m = 43 and sz = init_world and trz = echo_service
        and ns = decimal and i = "JStr ''first''" and tr = echo_service and s = init_world]
      path_carries_id [where n = 43 and m = 42 and sz = init_world and trz = echo_service
        and ns = decimal and i = "JStr ''first''" and tr = echo_service and s = init_world]
    by (simp add: echo_service_def decimal_eval)
qed




text \<open>
  C9, as the code has it. No function checks its argument before it hands the request to
  the instance. For every limit (zero, a negative number, a fraction, a string, ...)
  \<open>fetchPosts\<close> issues the GET with \<open>_limit\<close> set to that very value, \<open>undefined\<close> being the
  omitted argument, for which the default 10 is sent; and \<open>fetchPosts\<close> raises no failure
  of its own. For every id that the template literal converts to a string, \<open>fetchPostById\<close>
  and \<open>fetchUser\<close> put the conversion into the path and raise no failure of their own:
  what they throw is what the transport rejected the request with. The exception is an id
  that has no conversion (an object with an own property \<open>toString\<close>, or an array that
  holds one): both functions then throw a \<open>TypeError\<close> of their own and issue no request.
\<close>

theorem arguments_not_validated:
  fixes tr :: "('n::numeral) transport"
  shows
    "(l \<noteq> JUndefined \<longrightarrow>
        issued s (snd (fetchPosts tr l s)) =
          [\<lparr>verb = GET, url = ''/posts'', params = [(''_limit'', l)], body = None\<rparr>])
     \<and> (\<forall>e. fst (fetchPosts tr l s) = Inl e \<longrightarrow>
            tr (client s) \<lparr>verb = GET, url = ''/posts'',
              params = [(''_limit'', if l = JUndefined then JNum 10 else l)], body = None\<rparr> = Inl e)
     \<and> (\<forall>p. ToString ns i = Some p \<longrightarrow>
            issued s (snd (fetchPostById ns tr i s)) =
              [\<lparr>verb = GET, url = ''/posts/'' @ p, params = [], body = None\<rparr>]
            \<and> issued s (snd (fetchUser ns tr i s)) =
              [\<lparr>verb = GET, url = ''/users/'' @ p, params = [], body = None\<rparr>]
            \<and> (\<forall>e. fst (fetchPostById ns tr i s) = Inl e \<longrightarrow>
                  tr (client s) \<lparr>verb = GET, url = ''/posts/'' @ p, params = [], body = None\<rparr> = Inl e)
            \<and> (\<forall>e. fst (fetchUser ns tr i s) = Inl e \<longrightarrow>
                  tr (client s) \<lparr>verb = GET, url = ''/users/'' @ p, params = [], body = None\<rparr> = Inl e))
     \<and> (ToString ns i = None \<longrightarrow>
            fst (fetchPostById ns tr i s) = Inl type_error
            \<and> issued s (snd (fetchPostById ns tr i s)) = []
            \<and> fst (fetchUser ns tr i s) = Inl type_error
            \<and> issued s (snd (fetchUser ns tr i s)) = [])"
proof (intro conjI allI impI)
  assume "l \<noteq> JUndefined"
  then show "issued s (snd (fetchPosts tr l s)) =
          [\<lparr>verb = GET, url = ''/posts'', params = [(''_limit'', l)], body = None\<rparr>]"
    by (simp add: issued_def fetchPosts_wire)
next
  fix e
  assume thrown: "fst (fetchPosts tr l s) = Inl e"
  show "tr (client s) \<lparr>verb = GET, url = ''/posts'',
          params = [(''_limit'', if l = JUndefined then JNum 10 else l)], body = None\<rparr> = Inl e"
  proof (cases "tr (client s) \<lparr>verb = GET, url = ''/posts'',
                  params = [(''_limit'', if l = JUndefined then JNum 10 else l)], body = None\<rparr>")
    case (Inl e')
    from thrown show ?thesis by (simp add: fetchPosts_rejected [of tr s l e', OF Inl] Inl)
  next
    case (Inr resp)
    from thrown show ?thesis by (simp add: fetchPosts_fulfilled [of tr s l resp, OF Inr])
  qed
next
  fix p
  assume conv: "ToString ns i = Some p"
  show "issued s (snd (fetchPostById ns tr i s)) =
          [\<lparr>verb = GET, url = ''/posts/'' @ p, params = [], body = None\<rparr>]"
    by (simp add: issued_def fetchPostById_wire [OF conv])
  show "issued s (snd (fetchUser ns tr i s)) =
          [\<lparr>verb = GET, url = ''/users/'' @ p, params = [], body = None\<rparr>]"
    by (simp add: issued_def fetchUser_wire [OF conv])
next
  fix p e
  assume conv: "ToString ns i = Some p" and thrown: "fst (fetchPostById ns tr i s) = Inl e"
  show "tr (client s) \<lparr>verb = GET, url = ''/posts/'' @ p, params = [], body = None\<rparr> = Inl e"
  proof (cases "tr (client s) \<lparr>verb = GET, url = ''/posts/'' @ p, params = [], body = None\<rparr>")
    case (Inl e')
    from thrown have "e' = e"
      by (simp add: fetchPostById_rejected [where tr = tr and s = s, OF conv Inl])
    with Inl show ?thesis by simp
  next
    case (Inr resp)
    from thrown show ?thesis
      by (simp add: fetchPostById_fulfilled [where tr = tr and s = s, OF conv Inr])
  qed
next
  fix p e
  assume conv: "ToString ns i = Some p" and thrown: "fst (fetchUser ns tr i s) = Inl e"
  show "tr (client s) \<lparr>verb = GET, url = ''/users/'' @ p, params = [], body = None\<rparr> = Inl e"
  proof (cases "tr (client s) \<lparr>verb = GET, url = ''/users/'' @ p, params = [], body = None\<rparr>")
    case (Inl e')
    from thrown have "e' = e"
      by (simp add: fetchUser_rejected [where tr = tr and s = s, OF conv Inl])
    with Inl show ?thesis by simp
  next
    case (Inr resp)
    from thrown show ?thesis
      by (simp add: fetchUser_fulfilled [where tr = tr and s = s, OF conv Inr])
  qed
next
  assume none: "ToString ns i = None"
  show "fst (fetchPostById ns tr i s) = Inl type_error"
    by (simp add: fetchPostById_unconvertible [OF none])
  show "issued s (snd (fetchPostById ns tr i s)) = []"
    by (simp add: fetchPostById_unconvertible [OF none] issued_def)
  show "fst (fetchUser ns tr i s) = Inl type_error"
    by (simp add: fetchUser_unconvertible [OF none])
  show "issued s (snd (fetchUser ns tr i s)) = []"
    by (simp add: fetchUser_unconvertible [OF none] issued_def)
qed

theorem arguments_not_validated_witness:
  "issued init_world (snd (fetchPosts echo_service (JNum (- 5 / 2 :: rat)) init_world)) =
     [\<lparr>verb = GET, url = ''/posts'', params = [(''_limit'', JNum (- 5 / 2))], body = None\<rparr>]
   \<and> issued init_world (snd (fetchPosts echo_service (JNum (0::int)) init_world)) =
     [\<lparr>verb = GET, url = ''/posts'', params = [(''_limit'', JNum 0)], body = None\<rparr>]
   \<and> issued init_world (snd (fetchPostById decimal echo_service (JNum (- 1)) init_world)) =
     [\<lparr>verb = GET, url = ''/posts/-1'', params = [], body = None\<rparr>]
   \<and> issued init_world (snd (fetchUser decimal echo_service (JNum (- 1)) init_world)) =
     [\<lparr>verb = GET, url = ''/users/-1'', params = [], body = None\<rparr>]
   \<and> fst (fetchUser decimal echo_service (JArr [JNum 1, JObj [(''toString'', JNum 2)]]) init_world) =
     Inl type_error
   \<and> issued init_world
       (snd (fetchUser decimal echo_service (JArr [JNum 1, JObj [(''toString'', JNum 2)]]) init_world)) = []"
  using
    arguments_not_validated [of "JNum (- 5 / 2 :: rat)" init_world echo_service "\<lambda>q. []" JNull]
    arguments_not_validated [of "JNum (0::int)" init_world echo_service decimal "JNum (- 1)"]
    arguments_not_validated [of "JNum (0::int)" init_world echo_service decimal
      "JArr [JNum 1, JObj [(''toString'', JNum 2)]]"]
  by (simp add: decimal_eval)

text \<open>
  C9, as the specification words it ("for every id value whatsoever", "no local
  request-construction error is raised by the client itself"), fails at an id that is an
  object with an own property \<open>toString\<close>: \<open>fetchPostById\<close> puts nothing into a path, issues
  no request, and throws a \<open>TypeError\<close> that the client raised itself.
\<close>

theorem unconvertible_id_raises_locally:
  "fetchPostById decimal echo_service (JObj [(''toString'', JStr ''x'')]) init_world =
     (Inl type_error, init_world)
   \<and> issued init_world
       (snd (fetchPostById decimal echo_service (JObj [(''toString'', JStr ''x'')]) init_world)) = []"
  by (simp add: fetchPostById_def issued_def)

text \<open>
  C10. Two calls issued together, of any two of the four functions, their halves taking
  turns in any order: each call that has had its turns returns what it returns when it
  runs alone from the same state, whatever the other call did in between. The calls share
  no state that a result reads: a result depends on the state only through the
  configuration of the instance, which no half of a call changes.
\<close>

theorem concurrent_calls_do_not_interfere:
  fixes tr :: "('n::numeral) transport"
  shows
    "(2 \<le> count_list sch True \<longrightarrow>
        result_of (fst (interleave ns tr sch (Fresh a, Fresh b, s))) =
          Some (fst (run_call ns tr a s)))
     \<and> (2 \<le> count_list sch False \<longrightarrow>
        result_of (fst (snd (interleave ns tr sch (Fresh a, Fresh b, s)))) =
          Some (fst (run_call ns tr b s)))
     \<and> client (snd (snd (interleave ns tr sch (Fresh a, Fresh b, s)))) = client s
     \<and> (client s' = client s \<longrightarrow> fst (run_call ns tr a s') = fst (run_call ns tr a s))"
proof -
  have a: "on_course ns tr s a (Fresh a)" and b: "on_course ns tr s b (Fresh b)" by simp_all
  note inv = interleave_on_course [OF a b refl, of sch]
  show ?thesis
  proof (intro conjI impI)
    assume "2 \<le> count_list sch True"
    with inv have "turns_left (fst (interleave ns tr sch (Fresh a, Fresh b, s))) = 0" by simp
    with inv show "result_of (fst (interleave ns tr sch (Fresh a, Fresh b, s))) =
                     Some (fst (run_call ns tr a s))"
      by (simp add: finished_result)
  next
    assume "2 \<le> count_list sch False"
    with inv have "turns_left (fst (snd (interleave ns tr sch (Fresh a, Fresh b, s)))) = 0" by simp
    with inv show "result_of (fst (snd (interleave ns tr sch (Fresh a, Fresh b, s)))) =
                     Some (fst (run_call ns tr b s))"
      by (simp add: finished_result)
  next
    from inv show "client (snd (snd (interleave ns tr sch (Fresh a, Fresh b, s)))) = client s"
      by simp
  next
    assume "client s' = client s"
    then show "fst (run_call ns tr a s') = fst (run_call ns tr a s)"
      by (rule run_call_reads_client)
  qed
qed

theorem concurrent_calls_do_not_interfere_witness:
  "result_of (fst (interleave decimal echo_service [True, False, False, True]
       (Fresh (FetchPostById (JNum 1)), Fresh (CreatePost (JStr ''x'')), init_world))) =
     Some (Inr (JStr ''/posts/1''))
   \<and> result_of (fst (snd (interleave decimal echo_service [True, False, False, True]
       (Fresh (FetchPostById (JNum 1)), Fresh (CreatePost (JStr ''x'')), init_world)))) =
     Some (Inr (JStr ''x''))
   \<and> result_of (fst (interleave decimal not_found_service [False, True, True, False]
       (Fresh (FetchUser (JNum 1)), Fresh (FetchPosts (JNum 5)), init_world))) =
     Some (Inl (error_404 \<lparr>verb = GET, url = ''/users/1'', params = [], body = None\<rparr>))"
  using
    concurrent_calls_do_not_interfere
      [of "[True, False, False, True]" decimal echo_service "FetchPostById (JNum 1)"
        "CreatePost (JStr ''x'')" init_world init_world]
    concurrent_calls_do_not_interfere
      [of "[False, True, True, False]" decimal not_found_service "FetchUser (JNum 1)"
        "FetchPosts (JNum 5)" init_world init_world]
  by (simp add: api_defs echo_service_def not_found_service_def decimal_eval init_world_def)

end
